theory Spec2Isabelle
  imports Main
begin

section \<open>JavaScript strings\<close>

text \<open>
  A JavaScript string is its sequence of UTF-16 code units; a code unit is a natural
  number (below 65536 in every string the program can hold). \<open>js\<close> turns an ASCII
  literal of the source into that representation.
\<close>

type_synonym jsstring = "nat list"

definition js :: "string \<Rightarrow> jsstring" where
  "js s = map of_char s"

text \<open>
  \<open>String.prototype.trim\<close> removes ECMAScript WhiteSpace and LineTerminator code
  points from both ends: TAB, LF, VT, FF, CR, SPACE, NBSP, U+1680, U+2000 to U+200A,
  U+2028, U+2029, U+202F, U+205F, U+3000 and U+FEFF.
\<close>

definition is_white_space :: "nat \<Rightarrow> bool" where
  "is_white_space c =
     ((9 \<le> c \<and> c \<le> 13) \<or> c = 32 \<or> c = 160 \<or> c = 5760 \<or> (8192 \<le> c \<and> c \<le> 8202)
      \<or> c = 8232 \<or> c = 8233 \<or> c = 8239 \<or> c = 8287 \<or> c = 12288 \<or> c = 65279)"

definition trim :: "jsstring \<Rightarrow> jsstring" where
  "trim s = rev (dropWhile is_white_space (rev (dropWhile is_white_space s)))"

text \<open>
  \<open>String.prototype.toUpperCase\<close> maps every code point through the Unicode upper-case
  mapping. On ASCII that is \<open>a..z\<close> to \<open>A..Z\<close> and nothing else. The Unicode tables for
  the rest are not part of the program: the mapping of a maximal run of non-ASCII code
  units is the parameter \<open>uc\<close>.
\<close>

definition ascii_upper :: "nat \<Rightarrow> nat" where
  "ascii_upper c = (if 97 \<le> c \<and> c \<le> 122 then c - 32 else c)"

definition flush :: "(jsstring \<Rightarrow> jsstring) \<Rightarrow> jsstring \<Rightarrow> jsstring" where
  "flush uc run = (if run = [] then [] else uc run)"

fun upper_from :: "(jsstring \<Rightarrow> jsstring) \<Rightarrow> jsstring \<Rightarrow> jsstring \<Rightarrow> jsstring" where
  "upper_from uc run [] = flush uc run"
| "upper_from uc run (c # cs) =
     (if c < 128 then flush uc run @ ascii_upper c # upper_from uc [] cs
      else upper_from uc (run @ [c]) cs)"

definition toUpperCase :: "(jsstring \<Rightarrow> jsstring) \<Rightarrow> jsstring \<Rightarrow> jsstring" where
  "toUpperCase uc s = upper_from uc [] s"

definition startsWith :: "jsstring \<Rightarrow> jsstring \<Rightarrow> bool" where
  "startsWith s p = (take (length p) s = p)"

text \<open>
  Values of type \<open>string | undefined\<close> are \<open>jsstring option\<close>. Such a value is truthy
  when it is defined and not the empty string; \<open>a || b\<close> is \<open>a\<close> when \<open>a\<close> is truthy and
  \<open>b\<close> otherwise; a template literal renders \<open>undefined\<close> as the text \<open>undefined\<close>.
\<close>

definition truthy :: "jsstring option \<Rightarrow> bool" where
  "truthy v = (case v of None \<Rightarrow> False | Some t \<Rightarrow> t \<noteq> [])"

definition or_else :: "jsstring option \<Rightarrow> jsstring option \<Rightarrow> jsstring option" where
  "or_else a b = (if truthy a then a else b)"

definition or_string :: "jsstring option \<Rightarrow> jsstring \<Rightarrow> jsstring" where
  "or_string a d = (case a of None \<Rightarrow> d | Some t \<Rightarrow> if t = [] then d else t)"

definition interp :: "jsstring option \<Rightarrow> jsstring" where
  "interp v = (case v of None \<Rightarrow> js ''undefined'' | Some t \<Rightarrow> t)"

section \<open>Errors\<close>

text \<open>
  What a \<open>throw\<close> or a rejected promise carries: an \<open>Error\<close> with its message, a
  \<open>TypeError\<close> raised by the engine, an \<open>McpError\<close> with its code and the message given
  to its constructor, or a value that is not an \<open>Error\<close> (with its \<open>String(...)\<close> text).
\<close>

datatype error_code = InvalidRequest | MethodNotFound | InternalError

datatype thrown =
    JsError jsstring
  | JsTypeError jsstring
  | McpError error_code jsstring
  | NonError jsstring

section \<open>Configuration\<close>

record snowflake_config =
  account :: jsstring
  username :: jsstring
  password :: jsstring
  warehouse :: "jsstring option"
  database :: "jsstring option"
  schema :: "jsstring option"
  role :: "jsstring option"

text \<open>
  \<open>loadConfig\<close> reads \<open>process.env\<close>, a map from variable names to strings. The
  \<open>console.error\<close> lines it prints are not modelled.
\<close>

definition loadConfig :: "(jsstring \<rightharpoonup> jsstring) \<Rightarrow> thrown + snowflake_config" where
  "loadConfig env =
     (let config = \<lparr>
            account = or_string (env (js ''SNOWFLAKE_ACCOUNT'')) [],
            username = or_string (or_else (env (js ''SNOWFLAKE_USER''))
                                          (env (js ''SNOWFLAKE_USERNAME''))) [],
            password = or_string (env (js ''SNOWFLAKE_PASSWORD'')) [],
            warehouse = env (js ''SNOWFLAKE_WAREHOUSE''),
            database = env (js ''SNOWFLAKE_DATABASE''),
            schema = env (js ''SNOWFLAKE_SCHEMA''),
            role = env (js ''SNOWFLAKE_ROLE'') \<rparr>
      in if account config = [] \<or> username config = [] \<or> password config = []
         then Inl (JsError (js ''Missing required Snowflake configuration''))
         else Inr config)"

section \<open>The server object and its collaborators\<close>

text \<open>
  A connection object of the driver: the options it was created from and a serial
  number, the count of connection objects created before it, which is its identity.
\<close>

record snowflake_connection =
  conn_options :: snowflake_config
  conn_serial :: nat

text \<open>
  The fields of \<open>SnowflakeMCPServer\<close> that the handlers read and write, and two
  counters of what the server has asked of the driver: \<open>created\<close>, the number of
  connection objects obtained from \<open>createConnection\<close> (each is followed at once by
  one call of its \<open>connect\<close>), and \<open>submitted\<close>, the \<open>sqlText\<close> of every call of
  \<open>execute\<close>, oldest first.
\<close>

record server =
  config :: snowflake_config
  connection :: "snowflake_connection option"
  created :: nat
  submitted :: "jsstring list"

text \<open>
  What the program does not decide is a parameter: the driver (whether
  \<open>createConnection\<close> throws, what the callback of \<open>connect\<close> reports, what the
  \<open>complete\<close> callback of \<open>execute\<close> reports: an error, or rows that may be
  undefined), the engine (upper-casing outside ASCII, the message of the \<open>TypeError\<close>
  for reading a member of \<open>undefined\<close> or \<open>null\<close>) and the SDK (the \<open>message\<close> that
  \<open>McpError\<close> builds from its code and its argument).
\<close>

record 'r externals =
  create_error :: "snowflake_config \<Rightarrow> thrown option"
  connect_error :: "snowflake_connection \<Rightarrow> thrown option"
  execute_outcome :: "snowflake_connection \<Rightarrow> jsstring list \<Rightarrow> jsstring \<Rightarrow> thrown + 'r list option"
  upper_nonascii :: "jsstring \<Rightarrow> jsstring"
  nullish_member_message :: "jsstring \<Rightarrow> jsstring \<Rightarrow> jsstring"
  mcp_message :: "error_code \<Rightarrow> jsstring \<Rightarrow> jsstring"

definition new_server :: "(jsstring \<rightharpoonup> jsstring) \<Rightarrow> thrown + server" where
  "new_server env =
     (case loadConfig env of
        Inl e \<Rightarrow> Inl e
      | Inr c \<Rightarrow> Inr \<lparr> config = c, connection = None, created = 0, submitted = [] \<rparr>)"

definition connect :: "'r externals \<Rightarrow> server \<Rightarrow> (thrown + unit) \<times> server" where
  "connect x s =
     (case connection s of
        Some c \<Rightarrow> (Inr (), s)
      | None \<Rightarrow>
          (case create_error x (config s) of
             Some e \<Rightarrow> (Inl e, s)
           | None \<Rightarrow>
               (let c = \<lparr> conn_options = config s, conn_serial = created s \<rparr>;
                    s1 = s \<lparr> connection := Some c, created := Suc (created s) \<rparr>
                in case connect_error x c of
                     Some e \<Rightarrow> (Inl e, s1)
                   | None \<Rightarrow> (Inr (), s1))))"

definition executeQuery :: "'r externals \<Rightarrow> server \<Rightarrow> jsstring \<Rightarrow> (thrown + 'r list) \<times> server" where
  "executeQuery x s sqlText =
     (case (case connection s of None \<Rightarrow> connect x s | Some c \<Rightarrow> (Inr (), s)) of
        (Inl e, s1) \<Rightarrow> (Inl e, s1)
      | (Inr u, s1) \<Rightarrow>
          (case connection s1 of
             None \<Rightarrow> (Inl (JsTypeError (nullish_member_message x (js ''null'') (js ''execute''))), s1)
           | Some c \<Rightarrow>
               (let s2 = s1 \<lparr> submitted := submitted s1 @ [sqlText] \<rparr>
                in case execute_outcome x c (submitted s1) sqlText of
                     Inl err \<Rightarrow> (Inl err, s2)
                   | Inr rows \<Rightarrow> (Inr (case rows of None \<Rightarrow> [] | Some r \<Rightarrow> r), s2))))"

section \<open>Request handlers\<close>

text \<open>
  \<open>request.params.arguments\<close> is an optional object; the handlers read string-valued
  members of it with \<open>args?.name\<close>.
\<close>

type_synonym tool_args = "(jsstring \<rightharpoonup> jsstring) option"

definition arg :: "tool_args \<Rightarrow> jsstring \<Rightarrow> jsstring option" where
  "arg args k = (case args of None \<Rightarrow> None | Some m \<Rightarrow> m k)"

text \<open>
  The text a handler returns is \<open>JSON.stringify(rows, null, 2)\<close>; the results below
  hold the rows that text is printed from (and, for a resource, the uri).
\<close>

datatype 'r tool_result = ToolText "'r list"

datatype 'r resource_result = ResourceText jsstring "'r list"

definition error_text :: "'r externals \<Rightarrow> thrown \<Rightarrow> jsstring" where
  "error_text x e =
     (case e of
        JsError m \<Rightarrow> m
      | JsTypeError m \<Rightarrow> m
      | McpError c m \<Rightarrow> mcp_message x c m
      | NonError t \<Rightarrow> t)"

definition select_check :: "'r externals \<Rightarrow> jsstring \<Rightarrow> bool" where
  "select_check x query = startsWith (toUpperCase (upper_nonascii x) (trim query)) (js ''SELECT'')"

definition list_schemas_sql :: "tool_args \<Rightarrow> jsstring" where
  "list_schemas_sql args =
     (if truthy (arg args (js ''database''))
      then js ''SHOW SCHEMAS IN DATABASE '' @ interp (arg args (js ''database''))
      else js ''SHOW SCHEMAS'')"

definition list_tables_sql :: "tool_args \<Rightarrow> jsstring" where
  "list_tables_sql args =
     (if truthy (arg args (js ''database'')) \<and> truthy (arg args (js ''schema''))
      then js ''SHOW TABLES IN '' @ interp (arg args (js ''database'')) @ js ''.''
             @ interp (arg args (js ''schema''))
      else if truthy (arg args (js ''schema''))
      then js ''SHOW TABLES IN SCHEMA '' @ interp (arg args (js ''schema''))
      else if truthy (arg args (js ''database''))
      then js ''SHOW TABLES IN DATABASE '' @ interp (arg args (js ''database''))
      else js ''SHOW TABLES'')"

definition describe_table_sql :: "tool_args \<Rightarrow> jsstring" where
  "describe_table_sql args = js ''DESCRIBE TABLE '' @ interp (arg args (js ''table_name''))"

definition tool_query :: "'r externals \<Rightarrow> server \<Rightarrow> jsstring \<Rightarrow> (thrown + 'r tool_result) \<times> server" where
  "tool_query x s sqlText =
     (case executeQuery x s sqlText of
        (Inl e, s') \<Rightarrow> (Inl e, s')
      | (Inr rows, s') \<Rightarrow> (Inr (ToolText rows), s'))"

text \<open>The \<open>try\<close> block of the CallTool handler.\<close>

definition call_tool_try ::
  "'r externals \<Rightarrow> server \<Rightarrow> jsstring \<Rightarrow> tool_args \<Rightarrow> (thrown + 'r tool_result) \<times> server" where
  "call_tool_try x s name args =
     (case connect x s of
        (Inl e, s1) \<Rightarrow> (Inl e, s1)
      | (Inr u, s1) \<Rightarrow>
          if name = js ''read_query'' then
            (case arg args (js ''query'') of
               None \<Rightarrow>
                 (Inl (JsTypeError (nullish_member_message x (js ''undefined'') (js ''trim''))), s1)
             | Some query \<Rightarrow>
                 if \<not> select_check x query
                 then (Inl (JsError (js ''Only SELECT queries are allowed'')), s1)
                 else tool_query x s1 query)
          else if name = js ''list_databases'' then tool_query x s1 (js ''SHOW DATABASES'')
          else if name = js ''list_schemas'' then tool_query x s1 (list_schemas_sql args)
          else if name = js ''list_tables'' then tool_query x s1 (list_tables_sql args)
          else if name = js ''describe_table'' then tool_query x s1 (describe_table_sql args)
          else (Inl (McpError MethodNotFound (js ''Unknown tool: '' @ name)), s1))"

text \<open>The handler: the \<open>try\<close> block, and the \<open>catch\<close> that rethrows whatever it caught.\<close>

definition call_tool ::
  "'r externals \<Rightarrow> server \<Rightarrow> jsstring \<Rightarrow> tool_args \<Rightarrow> (thrown + 'r tool_result) \<times> server" where
  "call_tool x s name args =
     (case call_tool_try x s name args of
        (Inl e, s') \<Rightarrow>
          (Inl (McpError InternalError (js ''Tool execution failed: '' @ error_text x e)), s')
      | (Inr r, s') \<Rightarrow> (Inr r, s'))"

definition resource_query ::
  "'r externals \<Rightarrow> server \<Rightarrow> jsstring \<Rightarrow> jsstring \<Rightarrow> (thrown + 'r resource_result) \<times> server" where
  "resource_query x s uri sqlText =
     (case executeQuery x s sqlText of
        (Inl e, s') \<Rightarrow> (Inl e, s')
      | (Inr rows, s') \<Rightarrow> (Inr (ResourceText uri rows), s'))"

definition read_resource_try ::
  "'r externals \<Rightarrow> server \<Rightarrow> jsstring \<Rightarrow> (thrown + 'r resource_result) \<times> server" where
  "read_resource_try x s uri =
     (case connect x s of
        (Inl e, s1) \<Rightarrow> (Inl e, s1)
      | (Inr u, s1) \<Rightarrow>
          if uri = js ''snowflake://databases'' then resource_query x s1 uri (js ''SHOW DATABASES'')
          else if uri = js ''snowflake://schemas'' then resource_query x s1 uri (js ''SHOW SCHEMAS'')
          else if uri = js ''snowflake://tables'' then resource_query x s1 uri (js ''SHOW TABLES'')
          else (Inl (McpError InvalidRequest (js ''Unknown resource: '' @ uri)), s1))"

definition read_resource ::
  "'r externals \<Rightarrow> server \<Rightarrow> jsstring \<Rightarrow> (thrown + 'r resource_result) \<times> server" where
  "read_resource x s uri =
     (case read_resource_try x s uri of
        (Inl e, s') \<Rightarrow>
          (Inl (McpError InternalError (js ''Failed to read resource: '' @ error_text x e)), s')
      | (Inr r, s') \<Rightarrow> (Inr r, s'))"

text \<open>
  A run of the server: the requests that reach the two handlers, one after the other,
  each on the state the one before left.
\<close>

datatype request = CallTool jsstring tool_args | ReadResource jsstring

fun handle :: "'r externals \<Rightarrow> server \<Rightarrow> request \<Rightarrow> server" where
  "handle x s (CallTool name args) = snd (call_tool x s name args)"
| "handle x s (ReadResource uri) = snd (read_resource x s uri)"

fun serve :: "'r externals \<Rightarrow> server \<Rightarrow> request list \<Rightarrow> server" where
  "serve x s [] = s"
| "serve x s (r # rs) = serve x (handle x s r) rs"

section \<open>Notions of the specification\<close>

text \<open>
  An environment variable or argument is "empty or missing" when it is undefined or
  the empty string.
\<close>

definition missing_or_empty :: "jsstring option \<Rightarrow> bool" where
  "missing_or_empty v = (v = None \<or> v = Some [])"

text \<open>
  The username variable of the specification: \<open>SNOWFLAKE_USER\<close>, or the legacy
  \<open>SNOWFLAKE_USERNAME\<close> as fallback.
\<close>

definition username_variable :: "(jsstring \<rightharpoonup> jsstring) \<Rightarrow> jsstring option" where
  "username_variable env =
     (if missing_or_empty (env (js ''SNOWFLAKE_USER''))
      then env (js ''SNOWFLAKE_USERNAME'')
      else env (js ''SNOWFLAKE_USER''))"

text \<open>
  A text starts with a word "in any letter case" when its first code units are the
  letters of the word, each upper or lower case.
\<close>

definition starts_with_any_case :: "jsstring \<Rightarrow> jsstring \<Rightarrow> bool" where
  "starts_with_any_case t w = (map ascii_upper (take (length w) t) = map ascii_upper w)"

text \<open>The five tools and the three resources.\<close>

definition known_tools :: "jsstring list" where
  "known_tools =
     [js ''read_query'', js ''list_databases'', js ''list_schemas'', js ''list_tables'',
      js ''describe_table'']"

definition known_resources :: "jsstring list" where
  "known_resources =
     [js ''snowflake://databases'', js ''snowflake://schemas'', js ''snowflake://tables'']"

text \<open>The arguments object without its members that are the empty string.\<close>

definition drop_empty :: "(jsstring \<rightharpoonup> jsstring) \<Rightarrow> (jsstring \<rightharpoonup> jsstring)" where
  "drop_empty m = (\<lambda>k. if m k = Some [] then None else m k)"

section \<open>Concrete inputs\<close>

text \<open>
  An environment with the three required variables (the username under its legacy
  name), the server the constructor builds from it and the first connection object
  that server creates.
\<close>

definition demo_env :: "jsstring \<rightharpoonup> jsstring" where
  "demo_env =
     [js ''SNOWFLAKE_ACCOUNT'' \<mapsto> js ''acme'', js ''SNOWFLAKE_USERNAME'' \<mapsto> js ''reader'',
      js ''SNOWFLAKE_PASSWORD'' \<mapsto> js ''secret'', js ''SNOWFLAKE_WAREHOUSE'' \<mapsto> js ''wh'']"

definition demo_config :: snowflake_config where
  "demo_config =
     \<lparr> account = js ''acme'', username = js ''reader'', password = js ''secret'',
       warehouse = Some (js ''wh''), database = None, schema = None, role = None \<rparr>"

definition demo_server :: server where
  "demo_server = \<lparr> config = demo_config, connection = None, created = 0, submitted = [] \<rparr>"

definition demo_connection :: snowflake_connection where
  "demo_connection = \<lparr> conn_options = demo_config, conn_serial = 0 \<rparr>"

text \<open>
  Two worlds. In both the engine is V8 (upper-casing outside ASCII plays no part in
  the inputs below and is the identity) and the SDK builds the message of an
  \<open>McpError\<close> as \<open>MCP error <code>: <message>\<close>. In \<open>world_up\<close> the warehouse
  accepts every session and answers every statement with no rows; in \<open>world_down\<close>
  every \<open>connect\<close> reports an error.
\<close>

definition code_number :: "error_code \<Rightarrow> jsstring" where
  "code_number c =
     (case c of
        InvalidRequest \<Rightarrow> js ''-32600''
      | MethodNotFound \<Rightarrow> js ''-32601''
      | InternalError \<Rightarrow> js ''-32603'')"

definition world_up :: "nat externals" where
  "world_up =
     \<lparr> create_error = (\<lambda>c. None),
       connect_error = (\<lambda>c. None),
       execute_outcome = (\<lambda>c h q. Inr None),
       upper_nonascii = (\<lambda>r. r),
       nullish_member_message =
         (\<lambda>v m. js ''Cannot read properties of '' @ v @ js '' (reading '' @ [39] @ m @ [39] @ js '')''),
       mcp_message = (\<lambda>c m. js ''MCP error '' @ code_number c @ js '': '' @ m) \<rparr>"

definition world_down :: "nat externals" where
  "world_down =
     world_up \<lparr> connect_error :=
       (\<lambda>c. Some (JsError (js ''Incorrect username or password was specified.''))) \<rparr>"

section \<open>A live slot is left alone\<close>

text \<open>
  With a connection object in the slot, \<open>connect\<close> changes nothing, \<open>executeQuery\<close>
  only appends to \<open>submitted\<close>, and so does every handler.
\<close>

lemma connect_live: "connection s = Some c \<Longrightarrow> connect x s = (Inr (), s)"
  by (simp add: connect_def)

lemma connect_submitted: "submitted (snd (connect x s)) = submitted s"
  by (simp add: connect_def Let_def split: option.splits)

lemma connect_ok_slot: "connect x s = (Inr u, s1) \<Longrightarrow> connection s1 \<noteq> None"
  by (auto simp: connect_def Let_def split: option.splits)

lemma connect_ok_again: "connect x s = (Inr u, s1) \<Longrightarrow> connect x s1 = (Inr (), s1)"
proof -
  assume ok: "connect x s = (Inr u, s1)"
  then obtain c where "connection s1 = Some c"
    using connect_ok_slot by blast
  then show ?thesis by (rule connect_live)
qed

lemma executeQuery_live:
  "connection s = Some c \<Longrightarrow>
   executeQuery x s q =
     (case execute_outcome x c (submitted s) q of
        Inl err \<Rightarrow> Inl err
      | Inr rows \<Rightarrow> Inr (case rows of None \<Rightarrow> [] | Some r \<Rightarrow> r),
      s \<lparr> submitted := submitted s @ [q] \<rparr>)"
  by (simp add: executeQuery_def Let_def split: sum.splits)

lemma tool_query_live:
  "connection s = Some c \<Longrightarrow> snd (tool_query x s q) = s \<lparr> submitted := submitted s @ [q] \<rparr>"
  by (simp add: tool_query_def executeQuery_live split: sum.splits)

lemma resource_query_live:
  "connection s = Some c \<Longrightarrow> snd (resource_query x s uri q) = s \<lparr> submitted := submitted s @ [q] \<rparr>"
  by (simp add: resource_query_def executeQuery_live split: sum.splits)

lemma call_tool_try_after_connect:
  "connect x s = (Inr u, s1) \<Longrightarrow> call_tool_try x s n a = call_tool_try x s1 n a"
  using connect_ok_again [of x s u s1] by (simp add: call_tool_try_def)

lemma call_tool_after_connect:
  "connect x s = (Inr u, s1) \<Longrightarrow> call_tool x s n a = call_tool x s1 n a"
  by (simp add: call_tool_def call_tool_try_after_connect)

lemma read_resource_after_connect:
  "connect x s = (Inr u, s1) \<Longrightarrow> read_resource x s uri = read_resource x s1 uri"
  using connect_ok_again [of x s u s1] by (simp add: read_resource_def read_resource_try_def)

lemma call_tool_state: "snd (call_tool x s n a) = snd (call_tool_try x s n a)"
  by (simp add: call_tool_def split: prod.splits sum.splits)

lemma read_resource_state: "snd (read_resource x s uri) = snd (read_resource_try x s uri)"
  by (simp add: read_resource_def split: prod.splits sum.splits)

lemma call_tool_try_frame:
  assumes live: "connection s = Some c"
  shows "connection (snd (call_tool_try x s n a)) = Some c
     \<and> created (snd (call_tool_try x s n a)) = created s
     \<and> config (snd (call_tool_try x s n a)) = config s"
  unfolding call_tool_try_def connect_live [OF live]
  by (simp add: tool_query_live [OF live] live split: option.splits)

lemma read_resource_try_frame:
  assumes live: "connection s = Some c"
  shows "connection (snd (read_resource_try x s uri)) = Some c
     \<and> created (snd (read_resource_try x s uri)) = created s
     \<and> config (snd (read_resource_try x s uri)) = config s"
  unfolding read_resource_try_def connect_live [OF live]
  by (simp add: resource_query_live [OF live] live)

lemma handle_frame:
  assumes live: "connection s = Some c"
  shows "connection (handle x s r) = Some c \<and> created (handle x s r) = created s
     \<and> config (handle x s r) = config s"
  by (cases r)
    (simp_all add: call_tool_state read_resource_state call_tool_try_frame [OF live]
      read_resource_try_frame [OF live])

lemma serve_frame:
  "connection s = Some c \<Longrightarrow>
   connection (serve x s rs) = Some c \<and> created (serve x s rs) = created s
     \<and> config (serve x s rs) = config s"
proof (induction rs arbitrary: s)
  case Nil
  then show ?case by simp
next
  case (Cons r rs)
  have "connection (handle x s r) = Some c"
    by (simp add: handle_frame [OF Cons.prems])
  from Cons.IH [OF this] show ?case
    by (simp add: handle_frame [OF Cons.prems])
qed

lemma handle_after_connect:
  "connect x s = (Inr u, s1) \<Longrightarrow> handle x s r = handle x s1 r"
  by (cases r) (simp_all add: call_tool_after_connect read_resource_after_connect)

lemma connect_fresh:
  assumes "connection s = None" and "create_error x (config s) = None"
    and "connect_error x \<lparr> conn_options = config s, conn_serial = created s \<rparr> = None"
  shows "connect x s =
    (Inr (), s \<lparr> connection := Some \<lparr> conn_options = config s, conn_serial = created s \<rparr>,
                  created := Suc (created s) \<rparr>)"
  using assms by (simp add: connect_def Let_def)

text \<open>The definitions to unfold when a handler is run on a concrete input.\<close>

lemmas handler_defs = call_tool_def call_tool_try_def read_resource_def read_resource_try_def
  tool_query_def resource_query_def executeQuery_def connect_def error_text_def
lemmas demo_defs = demo_env_def demo_config_def demo_server_def demo_connection_def
  world_up_def world_down_def code_number_def

lemma new_server_fresh:
  "new_server env = Inr s0 \<Longrightarrow> connection s0 = None \<and> created s0 = 0 \<and> submitted s0 = []"
  by (auto simp: new_server_def split: sum.splits)

lemma serve_fresh:
  assumes empty: "connection s = None" and made: "create_error x (config s) = None"
    and up: "connect_error x \<lparr> conn_options = config s, conn_serial = created s \<rparr> = None"
    and calls: "reqs \<noteq> []"
  shows "created (serve x s reqs) = Suc (created s)
     \<and> connection (serve x s reqs) = Some \<lparr> conn_options = config s, conn_serial = created s \<rparr>"
proof -
  define c where "c = \<lparr> conn_options = config s, conn_serial = created s \<rparr>"
  define s1 where "s1 = s \<lparr> connection := Some c, created := Suc (created s) \<rparr>"
  obtain r rs where reqs: "reqs = r # rs"
    using calls by (cases reqs) auto
  have step: "connect x s = (Inr (), s1)"
    unfolding s1_def c_def using empty made up by (rule connect_fresh)
  have live: "connection s1 = Some c"
    by (simp add: s1_def)
  have first: "handle x s r = handle x s1 r"
    using step by (rule handle_after_connect)
  have h: "connection (handle x s1 r) = Some c \<and> created (handle x s1 r) = created s1"
    using handle_frame [OF live, of x r] by simp
  then have "connection (serve x (handle x s1 r) rs) = Some c
      \<and> created (serve x (handle x s1 r) rs) = created (handle x s1 r)"
    using serve_frame [of "handle x s1 r" c x rs] by simp
  with h show ?thesis
    by (simp add: reqs first s1_def c_def)
qed

section \<open>Connection lifecycle\<close>

text \<open>
  C7. \<open>connect\<close> returns at once, with the state as it was, when a connection object
  is in the slot. So on a server fresh from its constructor, where the first
  \<open>createConnection\<close> and \<open>connect\<close> succeed, any non-empty sequence of tool and
  resource calls creates exactly one connection object, the one left in the slot, and
  after every prefix of the sequence at most one has been created. The calls are taken
  one after the other.
\<close>

theorem connect_once:
  assumes fresh: "new_server env = Inr s0"
    and made: "create_error x (config s0) = None"
    and up: "connect_error x \<lparr> conn_options = config s0, conn_serial = 0 \<rparr> = None"
    and calls: "reqs \<noteq> []"
  shows "created (serve x s0 reqs) = 1
     \<and> connection (serve x s0 reqs) = Some \<lparr> conn_options = config s0, conn_serial = 0 \<rparr>
     \<and> (\<forall>k. created (serve x s0 (take k reqs)) \<le> 1)
     \<and> (\<forall>s c. connection s = Some c \<longrightarrow> connect x s = (Inr (), s))"
proof -
  have s0: "connection s0 = None" "created s0 = 0"
    using new_server_fresh [OF fresh] by simp_all
  have run: "created (serve x s0 rs) = 1
      \<and> connection (serve x s0 rs) = Some \<lparr> conn_options = config s0, conn_serial = 0 \<rparr>"
    if "rs \<noteq> []" for rs
    using serve_fresh [of s0 x rs] s0 made up that by simp
  have "created (serve x s0 (take k reqs)) \<le> 1" for k
  proof (cases "take k reqs = []")
    case True
    have "serve x s0 [] = s0" by simp
    with True show ?thesis by (simp only: s0)
  next
    case False
    then show ?thesis using run by simp
  qed
  then show ?thesis
    using run [OF calls] connect_live by blast
qed

text \<open>Three calls on the server built from \<open>demo_env\<close>, in \<open>world_up\<close>.\<close>

theorem connect_once_witness:
  "new_server demo_env = Inr demo_server
   \<and> created (serve world_up demo_server
         [CallTool (js ''list_databases'') None, ReadResource (js ''snowflake://tables''),
          CallTool (js ''read_query'') (Some [js ''query'' \<mapsto> js ''select 1''])]) = 1
   \<and> connection (serve world_up demo_server
         [CallTool (js ''list_databases'') None, ReadResource (js ''snowflake://tables''),
          CallTool (js ''read_query'') (Some [js ''query'' \<mapsto> js ''select 1''])])
       = Some demo_connection"
proof -
  have fresh: "new_server demo_env = Inr demo_server"
    by (simp add: new_server_def loadConfig_def or_string_def or_else_def truthy_def Let_def
        demo_defs js_def)
  have made: "create_error world_up (config demo_server) = None"
    by (simp add: world_up_def)
  have up: "connect_error world_up \<lparr> conn_options = config demo_server, conn_serial = 0 \<rparr> = None"
    by (simp add: world_up_def)
  show ?thesis
    using connect_once [OF fresh made up, of
        "[CallTool (js ''list_databases'') None, ReadResource (js ''snowflake://tables''),
          CallTool (js ''read_query'') (Some [js ''query'' \<mapsto> js ''select 1''])]"] fresh
    by (simp add: demo_server_def demo_connection_def)
qed

section \<open>Configuration loading\<close>

text \<open>
  C8. \<open>loadConfig\<close> throws \<open>Missing required Snowflake configuration\<close> exactly when
  the account variable, the username variable (\<open>SNOWFLAKE_USER\<close>, or the legacy
  \<open>SNOWFLAKE_USERNAME\<close> when that one is empty or missing) or the password variable is
  empty or missing; the constructor then throws the same error, so no server object
  exists and no handler can be reached. Otherwise it returns the record of the three
  values, with warehouse, database, schema and role as the environment has them, and
  the constructor gives a server with an empty connection slot.
\<close>

theorem loadConfig_required_fields:
  "loadConfig env =
     (if missing_or_empty (env (js ''SNOWFLAKE_ACCOUNT'')) \<or> missing_or_empty (username_variable env)
          \<or> missing_or_empty (env (js ''SNOWFLAKE_PASSWORD''))
      then Inl (JsError (js ''Missing required Snowflake configuration''))
      else Inr \<lparr> account = the (env (js ''SNOWFLAKE_ACCOUNT'')),
                 username = the (username_variable env),
                 password = the (env (js ''SNOWFLAKE_PASSWORD'')),
                 warehouse = env (js ''SNOWFLAKE_WAREHOUSE''),
                 database = env (js ''SNOWFLAKE_DATABASE''),
                 schema = env (js ''SNOWFLAKE_SCHEMA''),
                 role = env (js ''SNOWFLAKE_ROLE'') \<rparr>)
   \<and> new_server env =
     (case loadConfig env of
        Inl e \<Rightarrow> Inl e
      | Inr c \<Rightarrow> Inr \<lparr> config = c, connection = None, created = 0, submitted = [] \<rparr>)
   \<and> (missing_or_empty (env (js ''SNOWFLAKE_ACCOUNT'')) \<or> missing_or_empty (username_variable env)
          \<or> missing_or_empty (env (js ''SNOWFLAKE_PASSWORD''))) =
       (new_server env = Inl (JsError (js ''Missing required Snowflake configuration'')))"
proof -
  have load: "loadConfig env =
     (if missing_or_empty (env (js ''SNOWFLAKE_ACCOUNT'')) \<or> missing_or_empty (username_variable env)
          \<or> missing_or_empty (env (js ''SNOWFLAKE_PASSWORD''))
      then Inl (JsError (js ''Missing required Snowflake configuration''))
      else Inr \<lparr> account = the (env (js ''SNOWFLAKE_ACCOUNT'')),
                 username = the (username_variable env),
                 password = the (env (js ''SNOWFLAKE_PASSWORD'')),
                 warehouse = env (js ''SNOWFLAKE_WAREHOUSE''),
                 database = env (js ''SNOWFLAKE_DATABASE''),
                 schema = env (js ''SNOWFLAKE_SCHEMA''),
                 role = env (js ''SNOWFLAKE_ROLE'') \<rparr>)"
    by (auto simp: loadConfig_def missing_or_empty_def username_variable_def or_string_def
        or_else_def truthy_def Let_def split: option.splits)
  have new: "new_server env =
     (case loadConfig env of
        Inl e \<Rightarrow> Inl e
      | Inr c \<Rightarrow> Inr \<lparr> config = c, connection = None, created = 0, submitted = [] \<rparr>)"
    by (simp add: new_server_def)
  have "(missing_or_empty (env (js ''SNOWFLAKE_ACCOUNT'')) \<or> missing_or_empty (username_variable env)
          \<or> missing_or_empty (env (js ''SNOWFLAKE_PASSWORD''))) =
       (new_server env = Inl (JsError (js ''Missing required Snowflake configuration'')))"
    unfolding new load by simp
  with load new show ?thesis by blast
qed

text \<open>
  The environment \<open>demo_env\<close> names the user by the legacy variable only and loads;
  without its account, or with an empty password, it does not.
\<close>

theorem loadConfig_required_fields_witness:
  "new_server demo_env = Inr demo_server
   \<and> username_variable demo_env = Some (js ''reader'')
   \<and> new_server (demo_env (js ''SNOWFLAKE_ACCOUNT'' := None))
       = Inl (JsError (js ''Missing required Snowflake configuration''))
   \<and> new_server (demo_env (js ''SNOWFLAKE_PASSWORD'' \<mapsto> []))
       = Inl (JsError (js ''Missing required Snowflake configuration''))"
  using loadConfig_required_fields [of demo_env]
    loadConfig_required_fields [of "demo_env (js ''SNOWFLAKE_ACCOUNT'' := None)"]
    loadConfig_required_fields [of "demo_env (js ''SNOWFLAKE_PASSWORD'' \<mapsto> [])"]
  by (simp add: missing_or_empty_def username_variable_def demo_defs js_def)


section \<open>A failed connect\<close>

text \<open>
  C1. The specification wants the slot empty after a failed attempt, so that the next
  call connects afresh. \<open>connect\<close> stores the new connection object in the slot before
  it awaits the driver's \<open>connect\<close>, and nothing clears the slot when that fails. In
  \<open>world_down\<close>, on a fresh server: the first \<open>list_databases\<close> call fails in
  \<open>connect\<close> and leaves the object in the slot; the second call finds the slot
  occupied, makes no attempt, and submits \<open>SHOW DATABASES\<close> on the object whose
  session was never established. One connection object is created in all.
\<close>

theorem failed_connect_keeps_slot:
  "connect world_down demo_server =
     (Inl (JsError (js ''Incorrect username or password was specified.'')),
      demo_server \<lparr> connection := Some demo_connection, created := 1 \<rparr>)
   \<and> connection (handle world_down demo_server (CallTool (js ''list_databases'') None))
       = Some demo_connection
   \<and> created (serve world_down demo_server
         [CallTool (js ''list_databases'') None, CallTool (js ''list_databases'') None]) = 1
   \<and> submitted (serve world_down demo_server
         [CallTool (js ''list_databases'') None, CallTool (js ''list_databases'') None])
       = [js ''SHOW DATABASES'']"
  by (simp add: handler_defs demo_defs js_def Let_def)


section \<open>Unknown tools and resources\<close>

text \<open>
  C6. The \<open>McpError\<close> that the handlers throw for an unknown tool (code
  \<open>MethodNotFound\<close>) or an unknown resource (code \<open>InvalidRequest\<close>) is thrown inside
  the \<open>try\<close> block, so the handler's own \<open>catch\<close> takes it and throws an \<open>McpError\<close>
  of code \<open>InternalError\<close> whose message holds the message of the first. That is the
  error the caller gets for every name outside the five tools and every uri outside the
  three resources (or, when the connection step failed first, the wrapped error of that
  step). No SQL is submitted.
\<close>

theorem unknown_name_internal_error:
  "(name \<notin> set known_tools \<longrightarrow>
      fst (call_tool x s name args) =
        Inl (McpError InternalError (js ''Tool execution failed: '' @
          (case fst (connect x s) of
             Inl e \<Rightarrow> error_text x e
           | Inr u \<Rightarrow> mcp_message x MethodNotFound (js ''Unknown tool: '' @ name))))
      \<and> submitted (snd (call_tool x s name args)) = submitted s)
   \<and> (uri \<notin> set known_resources \<longrightarrow>
      fst (read_resource x s uri) =
        Inl (McpError InternalError (js ''Failed to read resource: '' @
          (case fst (connect x s) of
             Inl e \<Rightarrow> error_text x e
           | Inr u \<Rightarrow> mcp_message x InvalidRequest (js ''Unknown resource: '' @ uri))))
      \<and> submitted (snd (read_resource x s uri)) = submitted s)"
proof -
  obtain r s1 where c: "connect x s = (r, s1)"
    by (cases "connect x s")
  have sub: "submitted s1 = submitted s"
    using connect_submitted [of x s] by (simp add: c)
  have tool: "call_tool_try x s name args =
      (case r of Inl e \<Rightarrow> (Inl e, s1)
       | Inr u \<Rightarrow> (Inl (McpError MethodNotFound (js ''Unknown tool: '' @ name)), s1))"
    if "name \<notin> set known_tools"
    using that by (simp add: call_tool_try_def known_tools_def c split: sum.splits)
  have res: "read_resource_try x s uri =
      (case r of Inl e \<Rightarrow> (Inl e, s1)
       | Inr u \<Rightarrow> (Inl (McpError InvalidRequest (js ''Unknown resource: '' @ uri)), s1))"
    if "uri \<notin> set known_resources"
    using that by (simp add: read_resource_try_def known_resources_def c split: sum.splits)
  show ?thesis
    by (cases r) (simp_all add: call_tool_def read_resource_def tool res c sub error_text_def)
qed

text \<open>The tool \<open>drop_table\<close> and the resource \<open>snowflake://views\<close> in \<open>world_up\<close>.\<close>

theorem unknown_name_internal_error_witness:
  "fst (call_tool world_up demo_server (js ''drop_table'') None) =
     Inl (McpError InternalError
        (js ''Tool execution failed: MCP error -32601: Unknown tool: drop_table''))
   \<and> submitted (snd (call_tool world_up demo_server (js ''drop_table'') None)) = []
   \<and> fst (read_resource world_up demo_server (js ''snowflake://views'')) =
     Inl (McpError InternalError
        (js ''Failed to read resource: MCP error -32600: Unknown resource: snowflake://views''))
   \<and> submitted (snd (read_resource world_up demo_server (js ''snowflake://views''))) = []"
proof -
  have t: "js ''drop_table'' \<notin> set known_tools"
    by (simp add: known_tools_def js_def)
  have r: "js ''snowflake://views'' \<notin> set known_resources"
    by (simp add: known_resources_def js_def)
  have c: "fst (connect world_up demo_server) = Inr ()"
    by (simp add: connect_def demo_defs Let_def)
  have s0: "submitted demo_server = []"
    by (simp add: demo_server_def)
  have m: "mcp_message world_up MethodNotFound (js ''Unknown tool: '' @ js ''drop_table'') =
      js ''MCP error -32601: Unknown tool: drop_table''"
    "mcp_message world_up InvalidRequest (js ''Unknown resource: '' @ js ''snowflake://views'') =
      js ''MCP error -32600: Unknown resource: snowflake://views''"
    by (simp_all add: world_up_def code_number_def js_def)
  have p: "js ''Tool execution failed: '' @ js ''MCP error -32601: Unknown tool: drop_table'' =
      js ''Tool execution failed: MCP error -32601: Unknown tool: drop_table''"
    "js ''Failed to read resource: '' @ js ''MCP error -32600: Unknown resource: snowflake://views'' =
      js ''Failed to read resource: MCP error -32600: Unknown resource: snowflake://views''"
    by (simp_all add: js_def)
  show ?thesis
    using unknown_name_internal_error [of "js ''drop_table''" world_up demo_server None
        "js ''snowflake://views''"] t r
    by (simp add: c m p s0)
qed

section \<open>Upper-casing and the SELECT check\<close>

lemma ascii_upper_below: "ascii_upper c < 128 \<Longrightarrow> c < 128"
  by (simp add: ascii_upper_def split: if_splits)

lemma upper_from_ascii_prefix:
  "list_all (\<lambda>c. c < 128) p \<Longrightarrow> upper_from uc [] (p @ r) = map ascii_upper p @ upper_from uc [] r"
  by (induction p) (simp_all add: flush_def)

lemma upper_from_ascii:
  "list_all (\<lambda>c. c < 128) t \<Longrightarrow> upper_from uc [] t = map ascii_upper t"
  using upper_from_ascii_prefix [of t uc "[]"] by (simp add: flush_def)

lemma upper_SELECT: "map ascii_upper (js ''SELECT'') = js ''SELECT''"
  by (simp add: js_def ascii_upper_def)

lemma length_SELECT: "length (js ''SELECT'') = 6"
  by (simp add: js_def)

lemma any_case_ascii:
  assumes "starts_with_any_case t (js ''SELECT'')"
  shows "list_all (\<lambda>c. c < 128) (take 6 t)"
proof -
  have eq: "map ascii_upper (take 6 t) = js ''SELECT''"
    using assms unfolding starts_with_any_case_def upper_SELECT length_SELECT .
  have "list_all (\<lambda>c. c < 128) (js ''SELECT'')"
    by (simp add: js_def)
  then have "list_all (\<lambda>c. ascii_upper c < 128) (take 6 t)"
    unfolding eq [symmetric] by (simp add: list_all_iff)
  then show ?thesis
    by (simp add: list_all_iff ascii_upper_below)
qed

lemma select_check_any_case:
  assumes any: "starts_with_any_case (trim q) (js ''SELECT'')"
  shows "select_check x q"
proof -
  define t where "t = trim q"
  have eq: "map ascii_upper (take 6 t) = js ''SELECT''"
    using any unfolding starts_with_any_case_def upper_SELECT length_SELECT t_def .
  have "upper_from (upper_nonascii x) [] (take 6 t @ drop 6 t) =
      map ascii_upper (take 6 t) @ upper_from (upper_nonascii x) [] (drop 6 t)"
    using any_case_ascii [OF any] by (simp only: t_def upper_from_ascii_prefix)
  then have "toUpperCase (upper_nonascii x) t =
      js ''SELECT'' @ upper_from (upper_nonascii x) [] (drop 6 t)"
    by (simp add: toUpperCase_def eq)
  then show ?thesis
    by (simp add: select_check_def startsWith_def t_def)
qed

lemma select_check_ascii:
  assumes "list_all (\<lambda>c. c < 128) (trim q)"
  shows "select_check x q = starts_with_any_case (trim q) (js ''SELECT'')"
  by (simp add: select_check_def startsWith_def toUpperCase_def upper_from_ascii [OF assms]
      starts_with_any_case_def upper_SELECT take_map)

section \<open>What a call submits\<close>

lemma submitted_after_query:
  "submitted (snd (case connect x s of
       (Inl e, s1) \<Rightarrow> (Inl e, s1)
     | (Inr u, s1) \<Rightarrow> tool_query x s1 q)) =
   submitted s @ (case fst (connect x s) of Inl e \<Rightarrow> [] | Inr u \<Rightarrow> [q])"
proof -
  obtain r s1 where c: "connect x s = (r, s1)"
    by (cases "connect x s")
  have sub: "submitted s1 = submitted s"
    using connect_submitted [of x s] by (simp add: c)
  show ?thesis
  proof (cases r)
    case (Inl e)
    then show ?thesis by (simp add: c sub)
  next
    case (Inr u)
    then obtain k where "connection s1 = Some k"
      using connect_ok_slot [of x s u s1] c by auto
    then show ?thesis
      by (simp add: c Inr sub tool_query_live)
  qed
qed

lemma js_distinct_names:
  "js ''list_schemas'' \<noteq> js ''read_query''" "js ''list_schemas'' \<noteq> js ''list_databases''"
  "js ''list_tables'' \<noteq> js ''read_query''" "js ''list_tables'' \<noteq> js ''list_databases''"
  "js ''list_tables'' \<noteq> js ''list_schemas''"
  by (simp_all add: js_def)

lemma call_list_schemas:
  "call_tool_try x s (js ''list_schemas'') args =
     (case connect x s of
        (Inl e, s1) \<Rightarrow> (Inl e, s1)
      | (Inr u, s1) \<Rightarrow> tool_query x s1 (list_schemas_sql args))"
  by (simp add: call_tool_try_def js_distinct_names split: prod.splits sum.splits)

lemma call_list_tables:
  "call_tool_try x s (js ''list_tables'') args =
     (case connect x s of
        (Inl e, s1) \<Rightarrow> (Inl e, s1)
      | (Inr u, s1) \<Rightarrow> tool_query x s1 (list_tables_sql args))"
  by (simp add: call_tool_try_def js_distinct_names split: prod.splits sum.splits)

lemma call_read_query:
  "call_tool_try x s (js ''read_query'') args =
     (case connect x s of
        (Inl e, s1) \<Rightarrow> (Inl e, s1)
      | (Inr u, s1) \<Rightarrow>
          (case arg args (js ''query'') of
             None \<Rightarrow>
               (Inl (JsTypeError (nullish_member_message x (js ''undefined'') (js ''trim''))), s1)
           | Some query \<Rightarrow>
               if \<not> select_check x query
               then (Inl (JsError (js ''Only SELECT queries are allowed'')), s1)
               else tool_query x s1 query))"
  by (simp add: call_tool_try_def split: prod.splits sum.splits)

lemma submits_list_schemas:
  "submitted (snd (call_tool x s (js ''list_schemas'') args)) =
   submitted s @ (case fst (connect x s) of Inl e \<Rightarrow> [] | Inr u \<Rightarrow> [list_schemas_sql args])"
  by (simp only: call_tool_state call_list_schemas submitted_after_query)

lemma submits_list_tables:
  "submitted (snd (call_tool x s (js ''list_tables'') args)) =
   submitted s @ (case fst (connect x s) of Inl e \<Rightarrow> [] | Inr u \<Rightarrow> [list_tables_sql args])"
  by (simp only: call_tool_state call_list_tables submitted_after_query)

lemma connect_up_demo:
  "connect world_up demo_server =
     (Inr (), demo_server \<lparr> connection := Some demo_connection, created := 1 \<rparr>)"
  by (simp add: connect_def demo_defs Let_def)

lemma connect_down_demo:
  "connect world_down demo_server =
     (Inl (JsError (js ''Incorrect username or password was specified.'')),
      demo_server \<lparr> connection := Some demo_connection, created := 1 \<rparr>)"
  by (simp add: connect_def demo_defs Let_def)

text \<open>A rejected \<open>read_query\<close>, whatever \<open>connect\<close> did.\<close>

lemma failed_text:
  "js ''Tool execution failed: '' @ js ''Only SELECT queries are allowed'' =
   js ''Tool execution failed: Only SELECT queries are allowed''"
  by (simp add: js_def)

lemma read_query_rejected:
  assumes q: "arg args (js ''query'') = Some q" and bad: "\<not> select_check x q"
  shows "call_tool x s (js ''read_query'') args =
      (case connect x s of
         (Inl e, s1) \<Rightarrow>
           (Inl (McpError InternalError (js ''Tool execution failed: '' @ error_text x e)), s1)
       | (Inr u, s1) \<Rightarrow>
           (Inl (McpError InternalError
              (js ''Tool execution failed: Only SELECT queries are allowed'')), s1))"
proof -
  obtain r s1 where c: "connect x s = (r, s1)"
    by (cases "connect x s")
  show ?thesis
    by (cases r) (simp_all add: call_tool_def call_read_query c q bad error_text_def failed_text)
qed

section \<open>The SELECT check of read_query\<close>

text \<open>
  C2, as the code has it. A \<open>read_query\<close> call whose text fails the check (trimmed and
  upper-cased, it does not start with \<open>SELECT\<close>) has run \<open>connect\<close> before the check.
  When \<open>connect\<close> fails the call fails with that error, wrapped; otherwise it fails with
  an \<open>McpError\<close> of code \<open>InternalError\<close> and message
  \<open>Tool execution failed: Only SELECT queries are allowed\<close>, in the state \<open>connect\<close>
  left. Either way no SQL is submitted.
\<close>

theorem read_query_rejects_after_connect:
  assumes q: "arg args (js ''query'') = Some q" and bad: "\<not> select_check x q"
  shows "call_tool x s (js ''read_query'') args =
      (case connect x s of
         (Inl e, s1) \<Rightarrow>
           (Inl (McpError InternalError (js ''Tool execution failed: '' @ error_text x e)), s1)
       | (Inr u, s1) \<Rightarrow>
           (Inl (McpError InternalError
              (js ''Tool execution failed: Only SELECT queries are allowed'')), s1))
     \<and> submitted (snd (call_tool x s (js ''read_query'') args)) = submitted s"
proof -
  obtain r s1 where c: "connect x s = (r, s1)"
    by (cases "connect x s")
  have sub: "submitted s1 = submitted s"
    using connect_submitted [of x s] by (simp add: c)
  show ?thesis
    unfolding read_query_rejected [OF q bad] by (cases r) (simp_all add: c sub)
qed

text \<open>\<open>DELETE FROM t\<close> on a fresh server in \<open>world_up\<close>.\<close>

theorem read_query_rejects_after_connect_witness:
  "\<not> select_check world_up (js ''DELETE FROM t'')
   \<and> call_tool world_up demo_server (js ''read_query'')
        (Some [js ''query'' \<mapsto> js ''DELETE FROM t'']) =
       (Inl (McpError InternalError
          (js ''Tool execution failed: Only SELECT queries are allowed'')),
        demo_server \<lparr> connection := Some demo_connection, created := 1 \<rparr>)
   \<and> submitted (snd (call_tool world_up demo_server (js ''read_query'')
        (Some [js ''query'' \<mapsto> js ''DELETE FROM t'']))) = []"
proof -
  have q: "arg (Some [js ''query'' \<mapsto> js ''DELETE FROM t'']) (js ''query'') = Some (js ''DELETE FROM t'')"
    by (simp add: arg_def)
  have bad: "\<not> select_check world_up (js ''DELETE FROM t'')"
    by (simp add: select_check_def startsWith_def toUpperCase_def trim_def is_white_space_def
        ascii_upper_def flush_def js_def)
  have s0: "submitted demo_server = []"
    by (simp add: demo_server_def)
  show ?thesis
    using read_query_rejects_after_connect [OF q bad, of demo_server] bad
    by (simp add: connect_up_demo s0)
qed

text \<open>
  C2 as the specification states it (the call fails before the connection is touched,
  which stays as it was) does not hold: on a fresh server in \<open>world_up\<close> the rejected
  \<open>DELETE FROM t\<close> leaves a connection object in the slot that was empty, one object
  has been created, and the error is of code \<open>InternalError\<close>.
\<close>

theorem read_query_rejection_touches_connection:
  "\<not> select_check world_up (js ''DELETE FROM t'')
   \<and> connection demo_server = None
   \<and> connection (snd (call_tool world_up demo_server (js ''read_query'')
        (Some [js ''query'' \<mapsto> js ''DELETE FROM t'']))) = Some demo_connection
   \<and> created (snd (call_tool world_up demo_server (js ''read_query'')
        (Some [js ''query'' \<mapsto> js ''DELETE FROM t'']))) = 1
   \<and> fst (call_tool world_up demo_server (js ''read_query'')
        (Some [js ''query'' \<mapsto> js ''DELETE FROM t''])) =
       Inl (McpError InternalError (js ''Tool execution failed: Only SELECT queries are allowed''))"
proof -
  have bad: "\<not> select_check world_up (js ''DELETE FROM t'')"
    by (simp add: select_check_def startsWith_def toUpperCase_def trim_def is_white_space_def
        ascii_upper_def flush_def js_def)
  have "call_tool world_up demo_server (js ''read_query'')
        (Some [js ''query'' \<mapsto> js ''DELETE FROM t'']) =
       (Inl (McpError InternalError
          (js ''Tool execution failed: Only SELECT queries are allowed'')),
        demo_server \<lparr> connection := Some demo_connection, created := 1 \<rparr>)"
    by (simp add: call_tool_def call_read_query connect_up_demo arg_def bad error_text_def failed_text)
  with bad show ?thesis
    by (simp add: demo_server_def)
qed

text \<open>
  C3, as the code has it. In a \<open>read_query\<close> call whose connection step did not fail:
  a text that starts with \<open>SELECT\<close> in any letter case after trimming passes the check;
  a text that passes is handed to \<open>executeQuery\<close> as it is (not trimmed, not
  upper-cased), and is the one statement the call submits; a text that does not pass
  makes the call fail with the wrapped \<open>Only SELECT queries are allowed\<close> error with
  nothing submitted. For a text that is ASCII after trimming, passing the check is the
  same as starting with \<open>SELECT\<close> in any letter case.
\<close>

theorem read_query_gate:
  assumes c: "connect x s = (Inr (), s1)" and q: "arg args (js ''query'') = Some q"
  shows "(starts_with_any_case (trim q) (js ''SELECT'') \<longrightarrow> select_check x q)
     \<and> (select_check x q \<longrightarrow>
           call_tool x s (js ''read_query'') args =
             (case executeQuery x s1 q of
                (Inl e, s') \<Rightarrow>
                  (Inl (McpError InternalError (js ''Tool execution failed: '' @ error_text x e)), s')
              | (Inr rows, s') \<Rightarrow> (Inr (ToolText rows), s'))
           \<and> submitted (snd (call_tool x s (js ''read_query'') args)) = submitted s @ [q])
     \<and> (\<not> select_check x q \<longrightarrow>
           call_tool x s (js ''read_query'') args =
             (Inl (McpError InternalError
                (js ''Tool execution failed: Only SELECT queries are allowed'')), s1)
           \<and> submitted (snd (call_tool x s (js ''read_query'') args)) = submitted s)
     \<and> (list_all (\<lambda>c. c < 128) (trim q) \<longrightarrow>
           select_check x q = starts_with_any_case (trim q) (js ''SELECT''))"
proof -
  have sub: "submitted s1 = submitted s"
    using connect_submitted [of x s] by (simp add: c)
  obtain k where live: "connection s1 = Some k"
    using connect_ok_slot [OF c] by auto
  have pass: "call_tool x s (js ''read_query'') args =
             (case executeQuery x s1 q of
                (Inl e, s') \<Rightarrow>
                  (Inl (McpError InternalError (js ''Tool execution failed: '' @ error_text x e)), s')
              | (Inr rows, s') \<Rightarrow> (Inr (ToolText rows), s'))
           \<and> submitted (snd (call_tool x s (js ''read_query'') args)) = submitted s @ [q]"
    if "select_check x q"
  proof -
    have t: "call_tool_try x s (js ''read_query'') args = tool_query x s1 q"
      by (simp add: call_read_query c q that)
    have "submitted (snd (tool_query x s1 q)) = submitted s @ [q]"
      by (simp add: tool_query_live [OF live] sub)
    then show ?thesis
      by (simp add: call_tool_state t) (simp add: call_tool_def t tool_query_def split: prod.splits sum.splits)
  qed
  have reject: "call_tool x s (js ''read_query'') args =
             (Inl (McpError InternalError
                (js ''Tool execution failed: Only SELECT queries are allowed'')), s1)
           \<and> submitted (snd (call_tool x s (js ''read_query'') args)) = submitted s"
    if "\<not> select_check x q"
    unfolding read_query_rejected [OF q that] by (simp add: c sub)
  show ?thesis
    using pass reject select_check_any_case [of q x] select_check_ascii [of q x] by blast
qed

text \<open>The two query texts of the examples.\<close>

lemma select_1_any_case: "starts_with_any_case (trim (js ''  Select 1 '')) (js ''SELECT'')"
  by (simp add: starts_with_any_case_def trim_def is_white_space_def ascii_upper_def js_def)

lemma delete_not_select: "\<not> select_check world_up (js ''DELETE FROM t'')"
  by (simp add: select_check_def startsWith_def toUpperCase_def trim_def is_white_space_def
      ascii_upper_def flush_def js_def)

lemma down_text:
  "js ''Tool execution failed: '' @ js ''Incorrect username or password was specified.'' =
   js ''Tool execution failed: Incorrect username or password was specified.''"
  by (simp add: js_def)

text \<open>\<open>Select 1\<close> between blanks, and \<open>DELETE FROM t\<close>, on a fresh server in \<open>world_up\<close>.\<close>

theorem read_query_gate_witness:
  "starts_with_any_case (trim (js ''  Select 1 '')) (js ''SELECT'')
   \<and> submitted (snd (call_tool world_up demo_server (js ''read_query'')
        (Some [js ''query'' \<mapsto> js ''  Select 1 '']))) = [js ''  Select 1 '']
   \<and> \<not> select_check world_up (js ''DELETE FROM t'')
   \<and> call_tool world_up demo_server (js ''read_query'')
        (Some [js ''query'' \<mapsto> js ''DELETE FROM t'']) =
       (Inl (McpError InternalError
          (js ''Tool execution failed: Only SELECT queries are allowed'')),
        demo_server \<lparr> connection := Some demo_connection, created := 1 \<rparr>)"
proof -
  have q1: "arg (Some [js ''query'' \<mapsto> js ''  Select 1 '']) (js ''query'') = Some (js ''  Select 1 '')"
    by (simp add: arg_def)
  have q2: "arg (Some [js ''query'' \<mapsto> js ''DELETE FROM t'']) (js ''query'') = Some (js ''DELETE FROM t'')"
    by (simp add: arg_def)
  have s0: "submitted demo_server = []"
    by (simp add: demo_server_def)
  have fwd: "submitted (snd (call_tool world_up demo_server (js ''read_query'')
        (Some [js ''query'' \<mapsto> js ''  Select 1 '']))) = submitted demo_server @ [js ''  Select 1 '']"
    using read_query_gate [OF connect_up_demo q1] select_1_any_case by blast
  have rej: "call_tool world_up demo_server (js ''read_query'')
        (Some [js ''query'' \<mapsto> js ''DELETE FROM t'']) =
       (Inl (McpError InternalError
          (js ''Tool execution failed: Only SELECT queries are allowed'')),
        demo_server \<lparr> connection := Some demo_connection, created := 1 \<rparr>)"
    using read_query_gate [OF connect_up_demo q2] delete_not_select by blast
  show ?thesis
    using fwd rej select_1_any_case delete_not_select by (simp add: s0)
qed

text \<open>
  C3 as the specification states it (for every call) does not hold: on a fresh server
  in \<open>world_down\<close> the handler's first step, \<open>connect\<close>, fails, so \<open>select 1\<close> is not
  forwarded, and \<open>DELETE FROM t\<close> fails with the error of the driver, not with the
  validation error.
\<close>

theorem read_query_connect_failure:
  "starts_with_any_case (trim (js ''select 1'')) (js ''SELECT'')
   \<and> submitted (snd (call_tool world_down demo_server (js ''read_query'')
        (Some [js ''query'' \<mapsto> js ''select 1'']))) = []
   \<and> \<not> starts_with_any_case (trim (js ''DELETE FROM t'')) (js ''SELECT'')
   \<and> call_tool_try world_down demo_server (js ''read_query'')
        (Some [js ''query'' \<mapsto> js ''DELETE FROM t'']) =
       (Inl (JsError (js ''Incorrect username or password was specified.'')),
        demo_server \<lparr> connection := Some demo_connection, created := 1 \<rparr>)
   \<and> fst (call_tool world_down demo_server (js ''read_query'')
        (Some [js ''query'' \<mapsto> js ''DELETE FROM t''])) =
       Inl (McpError InternalError
          (js ''Tool execution failed: Incorrect username or password was specified.''))"
proof -
  have a: "starts_with_any_case (trim (js ''select 1'')) (js ''SELECT'')"
    by (simp add: starts_with_any_case_def trim_def is_white_space_def ascii_upper_def js_def)
  have b: "\<not> starts_with_any_case (trim (js ''DELETE FROM t'')) (js ''SELECT'')"
    by (simp add: starts_with_any_case_def trim_def is_white_space_def ascii_upper_def js_def)
  have t: "call_tool_try world_down demo_server (js ''read_query'') args =
       (Inl (JsError (js ''Incorrect username or password was specified.'')),
        demo_server \<lparr> connection := Some demo_connection, created := 1 \<rparr>)" for args
    by (simp add: call_read_query connect_down_demo)
  have s0: "submitted demo_server = []"
    by (simp add: demo_server_def)
  show ?thesis
    by (simp add: a b t call_tool_def error_text_def down_text s0)
qed

section \<open>read_query without a query\<close>

text \<open>
  C9, as the code has it. In a \<open>read_query\<close> call without a \<open>query\<close> argument the
  handler runs \<open>connect\<close> first. When that fails, the call fails with its error,
  wrapped. Otherwise \<open>query.trim()\<close> on \<open>undefined\<close> raises a \<open>TypeError\<close>, and the
  call fails with an \<open>McpError\<close> of code \<open>InternalError\<close> whose message is
  \<open>Tool execution failed:\<close> and the message of that \<open>TypeError\<close>; the validation
  error is not raised. Nothing is submitted.
\<close>

theorem missing_query_type_error:
  assumes q: "arg args (js ''query'') = None"
  shows "call_tool_try x s (js ''read_query'') args =
      (case connect x s of
         (Inl e, s1) \<Rightarrow> (Inl e, s1)
       | (Inr u, s1) \<Rightarrow>
           (Inl (JsTypeError (nullish_member_message x (js ''undefined'') (js ''trim''))), s1))
     \<and> call_tool x s (js ''read_query'') args =
      (case connect x s of
         (Inl e, s1) \<Rightarrow>
           (Inl (McpError InternalError (js ''Tool execution failed: '' @ error_text x e)), s1)
       | (Inr u, s1) \<Rightarrow>
           (Inl (McpError InternalError (js ''Tool execution failed: '' @
              nullish_member_message x (js ''undefined'') (js ''trim''))), s1))
     \<and> submitted (snd (call_tool x s (js ''read_query'') args)) = submitted s"
proof -
  obtain r s1 where c: "connect x s = (r, s1)"
    by (cases "connect x s")
  have sub: "submitted s1 = submitted s"
    using connect_submitted [of x s] by (simp add: c)
  show ?thesis
    by (cases r) (simp_all add: call_tool_def call_read_query c q sub error_text_def)
qed

text \<open>An empty arguments object, and no arguments object, on a fresh server in \<open>world_up\<close>.\<close>

theorem missing_query_type_error_witness:
  "call_tool_try world_up demo_server (js ''read_query'') (Some Map.empty) =
     (Inl (JsTypeError (js ''Cannot read properties of undefined (reading '' @ [39] @ js ''trim''
        @ [39] @ js '')'')),
      demo_server \<lparr> connection := Some demo_connection, created := 1 \<rparr>)
   \<and> fst (call_tool world_up demo_server (js ''read_query'') None) =
     Inl (McpError InternalError
        (js ''Tool execution failed: Cannot read properties of undefined (reading '' @ [39]
          @ js ''trim'' @ [39] @ js '')''))"
proof -
  have q1: "arg (Some Map.empty) (js ''query'') = None"
    by (simp add: arg_def)
  have q2: "arg None (js ''query'') = None"
    by (simp add: arg_def)
  have m: "nullish_member_message world_up (js ''undefined'') (js ''trim'') =
      js ''Cannot read properties of undefined (reading '' @ [39] @ js ''trim'' @ [39] @ js '')''"
    by (simp add: world_up_def js_def)
  show ?thesis
    using missing_query_type_error [OF q1, of world_up demo_server]
      missing_query_type_error [OF q2, of world_up demo_server]
    by (simp add: connect_up_demo m) (simp add: js_def)
qed

text \<open>
  C9 as stated (for every such call) does not hold: on a fresh server in \<open>world_down\<close>
  the \<open>try\<close> block throws the error of the driver, no \<open>TypeError\<close> is raised, and the
  message the caller gets is that of the driver.
\<close>

theorem missing_query_connect_failure:
  "call_tool_try world_down demo_server (js ''read_query'') None =
     (Inl (JsError (js ''Incorrect username or password was specified.'')),
      demo_server \<lparr> connection := Some demo_connection, created := 1 \<rparr>)
   \<and> fst (call_tool world_down demo_server (js ''read_query'') None) =
     Inl (McpError InternalError
        (js ''Tool execution failed: Incorrect username or password was specified.''))"
proof -
  have t: "call_tool_try world_down demo_server (js ''read_query'') None =
       (Inl (JsError (js ''Incorrect username or password was specified.'')),
        demo_server \<lparr> connection := Some demo_connection, created := 1 \<rparr>)"
    by (simp add: call_read_query connect_down_demo)
  show ?thesis
    by (simp add: t call_tool_def error_text_def down_text)
qed

text \<open>The statements built from the arguments of the examples.\<close>

lemma demo_submitted: "submitted demo_server = []"
  by (simp add: demo_server_def)

lemma fst_connect_up: "fst (connect world_up demo_server) = Inr ()"
  by (simp add: connect_up_demo)

lemma list_tables_examples:
  "list_tables_sql (Some [js ''database'' \<mapsto> js ''A'', js ''schema'' \<mapsto> js ''B'']) = js ''SHOW TABLES IN A.B''"
  "list_tables_sql (Some [js ''schema'' \<mapsto> js ''B'']) = js ''SHOW TABLES IN SCHEMA B''"
  "list_tables_sql (Some [js ''database'' \<mapsto> js ''A'']) = js ''SHOW TABLES IN DATABASE A''"
  "list_tables_sql None = js ''SHOW TABLES''"
  "list_tables_sql (Some [js ''database'' \<mapsto> [], js ''schema'' \<mapsto> js ''B'']) = js ''SHOW TABLES IN SCHEMA B''"
  "list_tables_sql (Some [js ''database'' \<mapsto> js ''A'', js ''schema'' \<mapsto> []]) = js ''SHOW TABLES IN DATABASE A''"
  "list_tables_sql (Some [js ''database'' \<mapsto> [], js ''schema'' \<mapsto> []]) = js ''SHOW TABLES''"
  by (simp_all add: list_tables_sql_def arg_def truthy_def interp_def js_def)

lemma list_schemas_examples:
  "list_schemas_sql (Some [js ''database'' \<mapsto> js ''X'']) = js ''SHOW SCHEMAS IN DATABASE X''"
  "list_schemas_sql None = js ''SHOW SCHEMAS''"
  "list_schemas_sql (Some [js ''database'' \<mapsto> []]) = js ''SHOW SCHEMAS''"
  by (simp_all add: list_schemas_sql_def arg_def truthy_def interp_def js_def)

section \<open>The statements of list_tables and list_schemas\<close>

text \<open>
  C4, as the code has it. An argument counts when it is present and not the empty
  string. The statement \<open>list_tables\<close> builds is \<open>SHOW TABLES IN d.c\<close> when database
  \<open>d\<close> and schema \<open>c\<close> both count, \<open>SHOW TABLES IN SCHEMA c\<close> when only the schema
  counts, \<open>SHOW TABLES IN DATABASE d\<close> when only the database counts, and
  \<open>SHOW TABLES\<close> when neither does; the values are appended as they are. That
  statement is the one text the call submits (nothing, when its connection step fails).
\<close>

theorem list_tables_statement:
  "(arg args (js ''database'') = Some d \<and> d \<noteq> [] \<and> arg args (js ''schema'') = Some c \<and> c \<noteq> []
      \<longrightarrow> list_tables_sql args = js ''SHOW TABLES IN '' @ d @ js ''.'' @ c)
   \<and> (missing_or_empty (arg args (js ''database'')) \<and> arg args (js ''schema'') = Some c \<and> c \<noteq> []
      \<longrightarrow> list_tables_sql args = js ''SHOW TABLES IN SCHEMA '' @ c)
   \<and> (arg args (js ''database'') = Some d \<and> d \<noteq> [] \<and> missing_or_empty (arg args (js ''schema''))
      \<longrightarrow> list_tables_sql args = js ''SHOW TABLES IN DATABASE '' @ d)
   \<and> (missing_or_empty (arg args (js ''database'')) \<and> missing_or_empty (arg args (js ''schema''))
      \<longrightarrow> list_tables_sql args = js ''SHOW TABLES'')
   \<and> submitted (snd (call_tool x s (js ''list_tables'') args)) =
       submitted s @ (case fst (connect x s) of Inl e \<Rightarrow> [] | Inr u \<Rightarrow> [list_tables_sql args])"
proof -
  have forms:
    "arg args (js ''database'') = Some d \<and> d \<noteq> [] \<and> arg args (js ''schema'') = Some c \<and> c \<noteq> []
      \<longrightarrow> list_tables_sql args = js ''SHOW TABLES IN '' @ d @ js ''.'' @ c"
    "missing_or_empty (arg args (js ''database'')) \<and> arg args (js ''schema'') = Some c \<and> c \<noteq> []
      \<longrightarrow> list_tables_sql args = js ''SHOW TABLES IN SCHEMA '' @ c"
    "arg args (js ''database'') = Some d \<and> d \<noteq> [] \<and> missing_or_empty (arg args (js ''schema''))
      \<longrightarrow> list_tables_sql args = js ''SHOW TABLES IN DATABASE '' @ d"
    "missing_or_empty (arg args (js ''database'')) \<and> missing_or_empty (arg args (js ''schema''))
      \<longrightarrow> list_tables_sql args = js ''SHOW TABLES''"
    by (auto simp: list_tables_sql_def truthy_def interp_def missing_or_empty_def)
  show ?thesis
    using forms submits_list_tables [of x s args] by blast
qed

text \<open>The four forms, with database \<open>A\<close> and schema \<open>B\<close>.\<close>

theorem list_tables_statement_witness:
  "submitted (snd (call_tool world_up demo_server (js ''list_tables'')
       (Some [js ''database'' \<mapsto> js ''A'', js ''schema'' \<mapsto> js ''B'']))) = [js ''SHOW TABLES IN A.B'']
   \<and> list_tables_sql (Some [js ''schema'' \<mapsto> js ''B'']) = js ''SHOW TABLES IN SCHEMA B''
   \<and> list_tables_sql (Some [js ''database'' \<mapsto> js ''A'']) = js ''SHOW TABLES IN DATABASE A''
   \<and> list_tables_sql None = js ''SHOW TABLES''"
  using list_tables_statement [of "Some [js ''database'' \<mapsto> js ''A'', js ''schema'' \<mapsto> js ''B'']"
      "js ''A''" "js ''B''" world_up demo_server]
    list_tables_statement [of "Some [js ''schema'' \<mapsto> js ''B'']" "[]" "js ''B''" world_up demo_server]
    list_tables_statement [of "Some [js ''database'' \<mapsto> js ''A'']" "js ''A''" "[]" world_up demo_server]
    list_tables_statement [of None "[]" "[]" world_up demo_server]
  by (simp add: list_tables_examples fst_connect_up demo_submitted)

text \<open>
  C4 as the specification states it (the first form whenever both arguments are given)
  does not hold: with database the empty string and schema \<open>B\<close>, both given, the call
  submits \<open>SHOW TABLES IN SCHEMA B\<close>, not \<open>SHOW TABLES IN .B\<close>.
\<close>

theorem list_tables_empty_database:
  "arg (Some [js ''database'' \<mapsto> [], js ''schema'' \<mapsto> js ''B'']) (js ''database'') = Some []
   \<and> arg (Some [js ''database'' \<mapsto> [], js ''schema'' \<mapsto> js ''B'']) (js ''schema'') = Some (js ''B'')
   \<and> submitted (snd (call_tool world_up demo_server (js ''list_tables'')
       (Some [js ''database'' \<mapsto> [], js ''schema'' \<mapsto> js ''B'']))) = [js ''SHOW TABLES IN SCHEMA B'']
   \<and> js ''SHOW TABLES IN SCHEMA B'' \<noteq> js ''SHOW TABLES IN '' @ [] @ js ''.'' @ js ''B''"
  by (simp add: submits_list_tables fst_connect_up demo_submitted list_tables_examples arg_def)
    (simp add: js_def)

text \<open>
  C5, as the code has it. The statement \<open>list_schemas\<close> builds is
  \<open>SHOW SCHEMAS IN DATABASE d\<close> when the database argument \<open>d\<close> is present and not the
  empty string, with \<open>d\<close> appended as it is, and \<open>SHOW SCHEMAS\<close> when it is missing or
  empty. That statement is the one text the call submits (nothing, when its connection
  step fails).
\<close>

theorem list_schemas_statement:
  "(arg args (js ''database'') = Some d \<and> d \<noteq> []
      \<longrightarrow> list_schemas_sql args = js ''SHOW SCHEMAS IN DATABASE '' @ d)
   \<and> (missing_or_empty (arg args (js ''database''))
      \<longrightarrow> list_schemas_sql args = js ''SHOW SCHEMAS'')
   \<and> submitted (snd (call_tool x s (js ''list_schemas'') args)) =
       submitted s @ (case fst (connect x s) of Inl e \<Rightarrow> [] | Inr u \<Rightarrow> [list_schemas_sql args])"
proof -
  have forms:
    "arg args (js ''database'') = Some d \<and> d \<noteq> []
      \<longrightarrow> list_schemas_sql args = js ''SHOW SCHEMAS IN DATABASE '' @ d"
    "missing_or_empty (arg args (js ''database''))
      \<longrightarrow> list_schemas_sql args = js ''SHOW SCHEMAS''"
    by (auto simp: list_schemas_sql_def truthy_def interp_def missing_or_empty_def)
  show ?thesis
    using forms submits_list_schemas [of x s args] by blast
qed

text \<open>Database \<open>X\<close>, and no arguments.\<close>

theorem list_schemas_statement_witness:
  "submitted (snd (call_tool world_up demo_server (js ''list_schemas'')
       (Some [js ''database'' \<mapsto> js ''X'']))) = [js ''SHOW SCHEMAS IN DATABASE X'']
   \<and> submitted (snd (call_tool world_up demo_server (js ''list_schemas'') None)) = [js ''SHOW SCHEMAS'']"
  using list_schemas_statement [of "Some [js ''database'' \<mapsto> js ''X'']" "js ''X''" world_up demo_server]
    list_schemas_statement [of None "[]" world_up demo_server]
  by (simp add: list_schemas_examples fst_connect_up demo_submitted)

text \<open>
  C5 as the specification states it (the long form whenever a database argument is
  given) does not hold: with database the empty string the call submits
  \<open>SHOW SCHEMAS\<close>, not \<open>SHOW SCHEMAS IN DATABASE\<close> and a blank.
\<close>

theorem list_schemas_empty_database:
  "arg (Some [js ''database'' \<mapsto> []]) (js ''database'') = Some []
   \<and> submitted (snd (call_tool world_up demo_server (js ''list_schemas'')
       (Some [js ''database'' \<mapsto> []]))) = [js ''SHOW SCHEMAS'']
   \<and> js ''SHOW SCHEMAS'' \<noteq> js ''SHOW SCHEMAS IN DATABASE '' @ []"
  by (simp add: submits_list_schemas fst_connect_up demo_submitted list_schemas_examples arg_def)
    (simp add: js_def)

text \<open>Dropping the empty members changes neither truthiness nor what is interpolated.\<close>

lemma truthy_drop_empty: "truthy (drop_empty m k) = truthy (m k)"
  by (simp add: drop_empty_def truthy_def split: option.splits)

lemma interp_drop_empty: "truthy (m k) \<Longrightarrow> interp (drop_empty m k) = interp (m k)"
  by (auto simp: drop_empty_def truthy_def interp_def split: option.splits)

lemma list_schemas_drop_empty: "list_schemas_sql (Some (drop_empty m)) = list_schemas_sql (Some m)"
  by (simp add: list_schemas_sql_def arg_def truthy_drop_empty interp_drop_empty)

lemma list_tables_drop_empty: "list_tables_sql (Some (drop_empty m)) = list_tables_sql (Some m)"
  by (simp add: list_tables_sql_def arg_def truthy_drop_empty interp_drop_empty)

section \<open>Empty arguments\<close>

text \<open>
  C10, as the code has it. An argument that is the empty string is treated as an
  absent one: a \<open>list_schemas\<close> or \<open>list_tables\<close> call gives the same result and the
  same state as the call without its empty arguments. When the connection step of the
  handler does not fail, \<open>list_schemas\<close> with an empty database submits
  \<open>SHOW SCHEMAS\<close>, and \<open>list_tables\<close> submits \<open>SHOW TABLES\<close> when an argument is
  empty and the other is empty or missing, \<open>SHOW TABLES IN SCHEMA c\<close> when the database
  is empty and the schema is \<open>c\<close>, and \<open>SHOW TABLES IN DATABASE d\<close> when the schema is
  empty and the database is \<open>d\<close>; the empty string is never interpolated. When the
  connection step fails the call submits nothing, as it does with the argument absent.
\<close>

theorem empty_argument_as_absent:
  "call_tool x s (js ''list_schemas'') (Some m) = call_tool x s (js ''list_schemas'') (Some (drop_empty m))
   \<and> call_tool x s (js ''list_tables'') (Some m) = call_tool x s (js ''list_tables'') (Some (drop_empty m))
   \<and> (m (js ''database'') = Some [] \<longrightarrow>
        list_schemas_sql (Some m) = js ''SHOW SCHEMAS''
        \<and> submitted (snd (call_tool x s (js ''list_schemas'') (Some m))) =
            submitted s @ (case fst (connect x s) of Inl e \<Rightarrow> [] | Inr u \<Rightarrow> [js ''SHOW SCHEMAS'']))
   \<and> ((m (js ''database'') = Some [] \<or> m (js ''schema'') = Some [])
        \<and> missing_or_empty (m (js ''database'')) \<and> missing_or_empty (m (js ''schema'')) \<longrightarrow>
        list_tables_sql (Some m) = js ''SHOW TABLES''
        \<and> submitted (snd (call_tool x s (js ''list_tables'') (Some m))) =
            submitted s @ (case fst (connect x s) of Inl e \<Rightarrow> [] | Inr u \<Rightarrow> [js ''SHOW TABLES'']))
   \<and> (m (js ''database'') = Some [] \<and> m (js ''schema'') = Some c \<and> c \<noteq> [] \<longrightarrow>
        list_tables_sql (Some m) = js ''SHOW TABLES IN SCHEMA '' @ c
        \<and> submitted (snd (call_tool x s (js ''list_tables'') (Some m))) =
            submitted s @ (case fst (connect x s) of
                             Inl e \<Rightarrow> []
                           | Inr u \<Rightarrow> [js ''SHOW TABLES IN SCHEMA '' @ c]))
   \<and> (m (js ''database'') = Some d \<and> d \<noteq> [] \<and> m (js ''schema'') = Some [] \<longrightarrow>
        list_tables_sql (Some m) = js ''SHOW TABLES IN DATABASE '' @ d
        \<and> submitted (snd (call_tool x s (js ''list_tables'') (Some m))) =
            submitted s @ (case fst (connect x s) of
                             Inl e \<Rightarrow> []
                           | Inr u \<Rightarrow> [js ''SHOW TABLES IN DATABASE '' @ d]))"
proof -
  have same: "call_tool x s (js ''list_schemas'') (Some m) =
        call_tool x s (js ''list_schemas'') (Some (drop_empty m))"
      "call_tool x s (js ''list_tables'') (Some m) =
        call_tool x s (js ''list_tables'') (Some (drop_empty m))"
    unfolding call_tool_def call_list_schemas call_list_tables list_schemas_drop_empty
      list_tables_drop_empty by simp_all
  have sent_schemas: "submitted (snd (call_tool x s (js ''list_schemas'') (Some m))) =
        submitted s @ (case fst (connect x s) of Inl e \<Rightarrow> [] | Inr u \<Rightarrow> [t])"
    if "list_schemas_sql (Some m) = t" for t
    by (cases "fst (connect x s)") (simp_all add: submits_list_schemas that)
  have sent_tables: "submitted (snd (call_tool x s (js ''list_tables'') (Some m))) =
        submitted s @ (case fst (connect x s) of Inl e \<Rightarrow> [] | Inr u \<Rightarrow> [t])"
    if "list_tables_sql (Some m) = t" for t
    by (cases "fst (connect x s)") (simp_all add: submits_list_tables that)
  have schemas: "list_schemas_sql (Some m) = js ''SHOW SCHEMAS''"
    if "m (js ''database'') = Some []"
    using that by (simp add: list_schemas_sql_def arg_def truthy_def)
  have none: "list_tables_sql (Some m) = js ''SHOW TABLES''"
    if "missing_or_empty (m (js ''database''))" and "missing_or_empty (m (js ''schema''))"
    using that by (auto simp: list_tables_sql_def arg_def truthy_def missing_or_empty_def)
  have only_schema: "list_tables_sql (Some m) = js ''SHOW TABLES IN SCHEMA '' @ c"
    if "m (js ''database'') = Some []" and "m (js ''schema'') = Some c" and "c \<noteq> []"
    using that by (simp add: list_tables_sql_def arg_def truthy_def interp_def)
  have only_database: "list_tables_sql (Some m) = js ''SHOW TABLES IN DATABASE '' @ d"
    if "m (js ''database'') = Some d" and "d \<noteq> []" and "m (js ''schema'') = Some []"
    using that by (simp add: list_tables_sql_def arg_def truthy_def interp_def)
  show ?thesis
    using same schemas none only_schema only_database
      sent_schemas [OF schemas] sent_tables [OF none] sent_tables [OF only_schema]
      sent_tables [OF only_database]
    by blast
qed

text \<open>
  An empty database, alone and beside schema \<open>B\<close>, and an empty schema beside database
  \<open>A\<close>, on a fresh server in \<open>world_up\<close>.
\<close>

theorem empty_argument_as_absent_witness:
  "submitted (snd (call_tool world_up demo_server (js ''list_schemas'')
       (Some [js ''database'' \<mapsto> []]))) = [js ''SHOW SCHEMAS'']
   \<and> submitted (snd (call_tool world_up demo_server (js ''list_tables'')
       (Some [js ''database'' \<mapsto> []]))) = [js ''SHOW TABLES'']
   \<and> submitted (snd (call_tool world_up demo_server (js ''list_tables'')
       (Some [js ''database'' \<mapsto> [], js ''schema'' \<mapsto> js ''B'']))) = [js ''SHOW TABLES IN SCHEMA B'']
   \<and> submitted (snd (call_tool world_up demo_server (js ''list_tables'')
       (Some [js ''database'' \<mapsto> js ''A'', js ''schema'' \<mapsto> []]))) = [js ''SHOW TABLES IN DATABASE A'']
   \<and> call_tool world_up demo_server (js ''list_tables'') (Some [js ''database'' \<mapsto> []])
       = call_tool world_up demo_server (js ''list_tables'') (Some Map.empty)"
proof -
  have up: "submitted demo_server @ (case fst (connect world_up demo_server) of
        Inl e \<Rightarrow> [] | Inr u \<Rightarrow> [t]) = [t]" for t :: jsstring
    by (simp add: fst_connect_up demo_submitted)
  have keys: "js ''schema'' \<noteq> js ''database''"
    by (simp add: js_def)
  have texts: "js ''SHOW TABLES IN SCHEMA '' @ js ''B'' = js ''SHOW TABLES IN SCHEMA B''"
    "js ''SHOW TABLES IN DATABASE '' @ js ''A'' = js ''SHOW TABLES IN DATABASE A''"
    "js ''A'' \<noteq> []" "js ''B'' \<noteq> []"
    by (simp_all add: js_def)
  have m0: "[js ''database'' \<mapsto> []] (js ''database'') = Some []"
    "missing_or_empty ([js ''database'' \<mapsto> []] (js ''database''))"
    "missing_or_empty ([js ''database'' \<mapsto> []] (js ''schema''))"
    by (simp_all add: keys missing_or_empty_def)
  have m1: "[js ''database'' \<mapsto> [], js ''schema'' \<mapsto> js ''B''] (js ''database'') = Some []"
    "[js ''database'' \<mapsto> [], js ''schema'' \<mapsto> js ''B''] (js ''schema'') = Some (js ''B'')"
    by (simp_all add: keys keys [symmetric])
  have m2: "[js ''database'' \<mapsto> js ''A'', js ''schema'' \<mapsto> []] (js ''database'') = Some (js ''A'')"
    "[js ''database'' \<mapsto> js ''A'', js ''schema'' \<mapsto> []] (js ''schema'') = Some []"
    by (simp_all add: keys keys [symmetric])
  have "submitted (snd (call_tool world_up demo_server (js ''list_schemas'')
       (Some [js ''database'' \<mapsto> []]))) =
      submitted demo_server @ (case fst (connect world_up demo_server) of
        Inl e \<Rightarrow> [] | Inr u \<Rightarrow> [js ''SHOW SCHEMAS''])"
    using empty_argument_as_absent [of world_up demo_server "[js ''database'' \<mapsto> []]"] m0
    by blast
  then have schemas: "submitted (snd (call_tool world_up demo_server (js ''list_schemas'')
       (Some [js ''database'' \<mapsto> []]))) = [js ''SHOW SCHEMAS'']"
    by (simp only: up)
  have "submitted (snd (call_tool world_up demo_server (js ''list_tables'')
       (Some [js ''database'' \<mapsto> []]))) =
      submitted demo_server @ (case fst (connect world_up demo_server) of
        Inl e \<Rightarrow> [] | Inr u \<Rightarrow> [js ''SHOW TABLES''])"
    using empty_argument_as_absent [of world_up demo_server "[js ''database'' \<mapsto> []]"] m0
    by blast
  then have t0: "submitted (snd (call_tool world_up demo_server (js ''list_tables'')
       (Some [js ''database'' \<mapsto> []]))) = [js ''SHOW TABLES'']"
    by (simp only: up)
  have "submitted (snd (call_tool world_up demo_server (js ''list_tables'')
       (Some [js ''database'' \<mapsto> [], js ''schema'' \<mapsto> js ''B'']))) =
      submitted demo_server @ (case fst (connect world_up demo_server) of
        Inl e \<Rightarrow> [] | Inr u \<Rightarrow> [js ''SHOW TABLES IN SCHEMA '' @ js ''B''])"
    using empty_argument_as_absent [of world_up demo_server
        "[js ''database'' \<mapsto> [], js ''schema'' \<mapsto> js ''B'']" "js ''B''"] m1 texts(4)
    by blast
  then have t1: "submitted (snd (call_tool world_up demo_server (js ''list_tables'')
       (Some [js ''database'' \<mapsto> [], js ''schema'' \<mapsto> js ''B'']))) = [js ''SHOW TABLES IN SCHEMA B'']"
    by (simp only: up texts)
  have "submitted (snd (call_tool world_up demo_server (js ''list_tables'')
       (Some [js ''database'' \<mapsto> js ''A'', js ''schema'' \<mapsto> []]))) =
      submitted demo_server @ (case fst (connect world_up demo_server) of
        Inl e \<Rightarrow> [] | Inr u \<Rightarrow> [js ''SHOW TABLES IN DATABASE '' @ js ''A''])"
    using empty_argument_as_absent [of world_up demo_server
        "[js ''database'' \<mapsto> js ''A'', js ''schema'' \<mapsto> []]" _ "js ''A''"] m2 texts(3)
    by blast
  then have t2: "submitted (snd (call_tool world_up demo_server (js ''list_tables'')
       (Some [js ''database'' \<mapsto> js ''A'', js ''schema'' \<mapsto> []]))) = [js ''SHOW TABLES IN DATABASE A'']"
    by (simp only: up texts)
  have e: "drop_empty [js ''database'' \<mapsto> []] = Map.empty"
    by (auto simp: drop_empty_def)
  have same: "call_tool world_up demo_server (js ''list_tables'') (Some [js ''database'' \<mapsto> []])
       = call_tool world_up demo_server (js ''list_tables'') (Some Map.empty)"
    using empty_argument_as_absent [of world_up demo_server "[js ''database'' \<mapsto> []]"]
    unfolding e by blast
  show ?thesis
    using schemas t0 t1 t2 same by simp
qed

text \<open>
  C10 as stated (the call submits the shorter statement, for every call) does not
  hold: on a fresh server in \<open>world_down\<close> the connection step fails, and
  \<open>list_schemas\<close> with an empty database, like \<open>list_tables\<close> with an empty database
  beside schema \<open>B\<close>, submits nothing and fails with the error of the driver.
\<close>

theorem empty_argument_connect_failure:
  "submitted (snd (call_tool world_down demo_server (js ''list_schemas'')
       (Some [js ''database'' \<mapsto> []]))) = []
   \<and> fst (call_tool world_down demo_server (js ''list_schemas'')
       (Some [js ''database'' \<mapsto> []])) =
     Inl (McpError InternalError
        (js ''Tool execution failed: Incorrect username or password was specified.''))
   \<and> submitted (snd (call_tool world_down demo_server (js ''list_tables'')
       (Some [js ''database'' \<mapsto> [], js ''schema'' \<mapsto> js ''B'']))) = []
   \<and> fst (call_tool world_down demo_server (js ''list_tables'')
       (Some [js ''database'' \<mapsto> [], js ''schema'' \<mapsto> js ''B''])) =
     Inl (McpError InternalError
        (js ''Tool execution failed: Incorrect username or password was specified.''))"
proof -
  have down: "fst (connect world_down demo_server) =
      Inl (JsError (js ''Incorrect username or password was specified.''))"
    by (simp add: connect_down_demo)
  have failed: "fst (call_tool world_down demo_server n a) =
      Inl (McpError InternalError
        (js ''Tool execution failed: Incorrect username or password was specified.''))"
    if "call_tool_try world_down demo_server n a =
      (case connect world_down demo_server of
         (Inl e, s1) \<Rightarrow> (Inl e, s1)
       | (Inr u, s1) \<Rightarrow> tool_query world_down s1 t)" for n a t
    by (simp add: call_tool_def that connect_down_demo error_text_def down_text)
  show ?thesis
    by (simp add: submits_list_schemas submits_list_tables down demo_submitted
        failed [OF call_list_schemas] failed [OF call_list_tables])
qed

end
